theory Spec2Isabelle
  imports Main "HOL-Library.Sublist"
begin

section \<open>Dashboard: ticket records and the feedback patch\<close>

text \<open>
  Source: \<^verbatim>\<open>src/dashboard/pages/dashboard.tsx\<close>.  The dashboard keeps the enriched
  tickets it fetched in the state variable \<^verbatim>\<open>insightRecs\<close> (type \<^verbatim>\<open>any[]\<close>).  Only the
  fields the feedback patch and the priority list read are modelled.  A field that may be
  absent in the JSON (\<^verbatim>\<open>undefined\<close> or \<^verbatim>\<open>null\<close>) is an \<open>option\<close>; a JavaScript string is
  a \<open>string\<close>.
\<close>

record rec =
  conv_id :: int
  intent :: "string option"
  severity_bucket :: "string option"
  suggested_tags :: "string list option"
  loading :: bool

text \<open>\<^verbatim>\<open>t.startsWith(p)\<close>.\<close>

definition startsWith :: "string \<Rightarrow> string \<Rightarrow> bool" where
  "startsWith t p = prefix p t"

text \<open>\<^verbatim>\<open>xs || []\<close> on an array that may be absent: every array, the empty one too, is truthy.\<close>

definition orEmpty :: "string list option \<Rightarrow> string list" where
  "orEmpty xs = (case xs of None \<Rightarrow> [] | Some ys \<Rightarrow> ys)"

text \<open>\<^verbatim>\<open>s || d\<close> with \<^verbatim>\<open>s\<close> a string: the empty string is falsy.\<close>

definition strOr :: "string \<Rightarrow> string option \<Rightarrow> string option" where
  "strOr s d = (if s \<noteq> [] then Some s else d)"

text \<open>
  The body of the \<^verbatim>\<open>insightRecs.map(rec => ...)\<close> callback of \<^verbatim>\<open>submitFeedback\<close>
  (lines 179--197), in the order of the source: copy the record, overwrite intent and
  severity bucket, then rebuild the suggested tags, first for the intent, then for the
  severity.  \<^verbatim>\<open>unshift\<close> puts the new tag in front.
\<close>

definition patchIntentTags :: "string \<Rightarrow> rec \<Rightarrow> rec \<Rightarrow> rec" where
  "patchIntentTags correctIntent r newRec =
     (if correctIntent \<noteq> [] then
        newRec\<lparr>suggested_tags :=
          Some ((''intent:'' @ correctIntent) #
                filter (\<lambda>t. \<not> startsWith t ''intent:'') (orEmpty (suggested_tags r)))\<rparr>
      else newRec)"

definition patchSevTags :: "string \<Rightarrow> rec \<Rightarrow> rec \<Rightarrow> rec" where
  "patchSevTags correctSeverity r newRec =
     (if correctSeverity \<noteq> [] then
        newRec\<lparr>suggested_tags :=
          Some ((''sev:'' @ correctSeverity) #
                filter (\<lambda>t. \<not> startsWith t ''sev:'')
                  (case suggested_tags newRec of
                     Some ts \<Rightarrow> ts
                   | None \<Rightarrow> orEmpty (suggested_tags r)))\<rparr>
      else newRec)"

definition patchRec :: "int \<Rightarrow> string \<Rightarrow> string \<Rightarrow> rec \<Rightarrow> rec" where
  "patchRec convId correctIntent correctSeverity r =
     (if conv_id r = convId then
        patchSevTags correctSeverity r
          (patchIntentTags correctIntent r
             (r\<lparr>intent := strOr correctIntent (intent r),
                severity_bucket := strOr correctSeverity (severity_bucket r)\<rparr>))
      else r)"


text \<open>
  \<^verbatim>\<open>(r.suggested_tags || []).find(t => t.startsWith('intent:'))\<close>, as the ticket item and
  the priority list read the intent tag (lines 295 and 555).
\<close>

definition intentTag :: "rec \<Rightarrow> string option" where
  "intentTag r = find (\<lambda>t. startsWith t ''intent:'') (orEmpty (suggested_tags r))"

text \<open>The number of tags of a list that start with a prefix.\<close>

definition countTags :: "string \<Rightarrow> string list \<Rightarrow> nat" where
  "countTags p ts = length (filter (\<lambda>t. startsWith t p) ts)"

text \<open>Ticket #123 of the specification's fifth scenario, before its correction.\<close>

definition ticket123 :: rec where
  "ticket123 =
     \<lparr>conv_id = 123, intent = Some ''question'', severity_bucket = Some ''low'',
      suggested_tags = Some [''intent:question'', ''sev:low'', ''how_to''],
      loading = False\<rparr>"


section \<open>Dashboard: the feedback modal and the priority list\<close>

text \<open>
  The \<^verbatim>\<open>option\<close> values of the two \<^verbatim>\<open>select\<close> elements of the feedback modal, in the
  order of the markup (lines 426--437 and 442--448).
\<close>

definition intentOptions :: "string list" where
  "intentOptions =
     ['''', ''crash_report'', ''bug_report'', ''billing_issue'', ''offerwall_issue'',
      ''refund_request'', ''delete_account'', ''lost_progress'', ''question'', ''feedback'']"

definition severityOptions :: "string list" where
  "severityOptions = ['''', ''critical'', ''high'', ''medium'', ''low'']"

text \<open>
  \<^verbatim>\<open>HTMLSelectElement.value\<close>: the value of the selected option, and the empty string when
  no option is selected.  The selection is the index of an option.
\<close>

definition selectValue :: "string list \<Rightarrow> nat option \<Rightarrow> string" where
  "selectValue options selectedIndex =
     (case selectedIndex of
        None \<Rightarrow> []
      | Some i \<Rightarrow> if i < length options then options ! i else [])"

text \<open>The query parameters \<^verbatim>\<open>submitFeedback\<close> posts to the backend (lines 165--170).\<close>

record feedbackParams =
  param_conv_id :: int
  correct_intent :: string
  correct_severity :: string
  param_notes :: string

definition submitFeedbackParams :: "int \<Rightarrow> string \<Rightarrow> string \<Rightarrow> string \<Rightarrow> feedbackParams" where
  "submitFeedbackParams convId correctIntent correctSeverity notesText =
     \<lparr>param_conv_id = convId, correct_intent = correctIntent,
      correct_severity = correctSeverity, param_notes = notesText\<rparr>"

text \<open>
  The \<^verbatim>\<open>onClick\<close> handler of the modal's submit button (lines 463--468): it reads the
  two selects and the notes and hands them to \<^verbatim>\<open>submitFeedback\<close>.
\<close>

definition modalSubmit :: "rec \<Rightarrow> nat option \<Rightarrow> nat option \<Rightarrow> string \<Rightarrow> feedbackParams" where
  "modalSubmit feedbackTicket intentSelected severitySelected notesText =
     submitFeedbackParams (conv_id feedbackTicket)
       (selectValue intentOptions intentSelected)
       (selectValue severityOptions severitySelected) notesText"

text \<open>
  \<^verbatim>\<open>toLowerCase\<close> and \<^verbatim>\<open>toUpperCase\<close> on the ASCII letters.  (No character outside
  \<^verbatim>\<open>A-Z\<close> lower-cases to a letter of \<^verbatim>\<open>critical\<close> or \<^verbatim>\<open>high\<close>, so the comparison
  of the priority list is the one of the source.)
\<close>

definition lowerChar :: "char \<Rightarrow> char" where
  "lowerChar c =
     (let n = (of_char c :: nat) in if 65 \<le> n \<and> n \<le> 90 then char_of (n + 32) else c)"

definition upperChar :: "char \<Rightarrow> char" where
  "upperChar c =
     (let n = (of_char c :: nat) in if 97 \<le> n \<and> n \<le> 122 then char_of (n - 32) else c)"

definition toLowerCase :: "string \<Rightarrow> string" where
  "toLowerCase s = map lowerChar s"

definition toUpperCase :: "string \<Rightarrow> string" where
  "toUpperCase s = map upperChar s"

text \<open>
  The severity badge of a ticket item (lines 339--345): its colour class and its text
  \<^verbatim>\<open>(r.severity_bucket || 'low').toUpperCase()\<close>.
\<close>

definition badgeColor :: "rec \<Rightarrow> string" where
  "badgeColor r =
     (if severity_bucket r = Some ''critical'' then ''bg-red-600''
      else if severity_bucket r = Some ''high'' then ''bg-orange-500''
      else if severity_bucket r = Some ''medium'' then ''bg-blue-500''
      else ''bg-green-500'')"

definition badgeText :: "rec \<Rightarrow> string" where
  "badgeText r =
     toUpperCase (case severity_bucket r of
                    None \<Rightarrow> ''low''
                  | Some b \<Rightarrow> if b \<noteq> [] then b else ''low'')"

text \<open>
  The filter of the priority list (lines 549 and 552):
  \<^verbatim>\<open>!r.__loading && r.severity_bucket && ['critical','high'].includes(r.severity_bucket.toLowerCase()) && !dismissedIds.has(r.conv_id)\<close>,
  and the list itself, cut to five entries by \<^verbatim>\<open>slice(0, 5)\<close>.
\<close>

definition isPriority :: "int set \<Rightarrow> rec \<Rightarrow> bool" where
  "isPriority dismissedIds r =
     (\<not> loading r \<and>
      (case severity_bucket r of
         None \<Rightarrow> False
       | Some b \<Rightarrow> b \<noteq> [] \<and> toLowerCase b \<in> set [''critical'', ''high'']) \<and>
      conv_id r \<notin> dismissedIds)"


text \<open>The closed enumeration of severity buckets of the specification's data model.\<close>

definition specBuckets :: "string list" where
  "specBuckets = [''low'', ''medium'', ''high'']"

section \<open>Feedback store\<close>

text \<open>
  Source: \<^verbatim>\<open>src/api/migrations/0002_add_feedback.sql\<close>, the table \<^verbatim>\<open>ticket_feedback\<close>.
  A row has the table's columns; \<^verbatim>\<open>action_type\<close> takes the three values of the column's
  comment, and \<^verbatim>\<open>feedback_data\<close> (a JSON text in the table) is the payload of the
  specification's FeedbackRecord: optional corrected intent, optional corrected severity,
  optional notes.
\<close>

datatype action = Seen | Dismissed | TagCorrection

record payload =
  corrected_intent :: "string option"
  corrected_severity :: "string option"
  feedback_notes :: "string option"

record feedback_row =
  row_id :: nat
  conversation_id :: int
  ticket_number :: "int option"
  action_type :: action
  feedback_data :: payload
  created_at :: nat

record store =
  ticket_feedback :: "feedback_row list"
  next_id :: nat

definition emptyStore :: store where
  "emptyStore = \<lparr>ticket_feedback = [], next_id = 1\<rparr>"

text \<open>The columns of the constraint \<^verbatim>\<open>UNIQUE(conversation_id, action_type)\<close>.\<close>

definition rowKey :: "feedback_row \<Rightarrow> int \<times> action" where
  "rowKey r = (conversation_id r, action_type r)"

definition uniqueKeys :: "store \<Rightarrow> bool" where
  "uniqueKeys s = distinct (map rowKey (ticket_feedback s))"

text \<open>The stored records of one (ticket, action type) pair, in table order.\<close>

definition recordsFor :: "int \<times> action \<Rightarrow> store \<Rightarrow> feedback_row list" where
  "recordsFor k s = filter (\<lambda>r. rowKey r = k) (ticket_feedback s)"

text \<open>
  Modelled from the spec: the backend handler of \<^verbatim>\<open>POST /admin/ticket/feedback\<close> and
  \<^verbatim>\<open>/admin/ticket/mark_seen\<close> is not among the sources; section 4.6 of the specification
  gives \<^verbatim>\<open>submitFeedback(ticketId, actionType, payload)\<close> as an upsert keyed by
  (ticketId, actionType): a second submission for the same pair replaces the first, in
  place, and a first one creates the record.  The new row takes the next
  \<^verbatim>\<open>AUTOINCREMENT\<close> id.  (Named \<open>upsertFeedback\<close> here: \<^verbatim>\<open>submitFeedback\<close> of
  \<^verbatim>\<open>dashboard.tsx\<close> is the client that posts to this handler.)
\<close>

definition upsertFeedback :: "store \<Rightarrow> int \<Rightarrow> action \<Rightarrow> payload \<Rightarrow> nat \<Rightarrow> store" where
  "upsertFeedback s ticketId actionType p now =
     (if (ticketId, actionType) \<in> set (map rowKey (ticket_feedback s)) then
        s\<lparr>ticket_feedback :=
            map (\<lambda>r. if rowKey r = (ticketId, actionType)
                      then r\<lparr>feedback_data := p, created_at := now\<rparr> else r)
              (ticket_feedback s)\<rparr>
      else
        s\<lparr>ticket_feedback := ticket_feedback s @
            [\<lparr>row_id = next_id s, conversation_id = ticketId, ticket_number = None,
              action_type = actionType, feedback_data = p, created_at = now\<rparr>],
          next_id := next_id s + 1\<rparr>)"

text \<open>A history of submissions, run from the empty table.\<close>

fun submitAll :: "store \<Rightarrow> (int \<times> action \<times> payload \<times> nat) list \<Rightarrow> store" where
  "submitAll s [] = s"
| "submitAll s ((ticketId, actionType, p, now) # rest) =
     submitAll (upsertFeedback s ticketId actionType p now) rest"

section \<open>Severity engine\<close>

text \<open>
  Modelled from the spec: the severity engine (\<^verbatim>\<open>engine/severity.py\<close> in the repository's
  documents) is not among the sources.  Section 4.3 of the specification gives it in five
  steps.  The point values and keyword lists of step 1 are not in the specification, so
  the base score is an argument, as is the count of the cluster-volume lookup of step 4.
\<close>

datatype Intent =
  BugReport | CrashReport | BillingIssue | DeleteAccount | LostProgress
  | Feedback | Question | GameplayIssue | IncompleteTicket | Unreadable

datatype bucket = Low | Medium | High

fun rank :: "bucket \<Rightarrow> nat" where
  "rank Low = 0"
| "rank Medium = 1"
| "rank High = 2"

text \<open>
  Modelled from the spec: ``at least'' a bucket, in the ordering low < medium < high of
  section 3.
\<close>

definition atLeastBucket :: "bucket \<Rightarrow> bucket \<Rightarrow> bucket" where
  "atLeastBucket lo b = (if rank b < rank lo then lo else b)"

text \<open>
  Modelled from the spec: step 2, score at least 50 is high, at least 30 is medium, else
  low.
\<close>

definition bucketize :: "int \<Rightarrow> bucket" where
  "bucketize score = (if score \<ge> 50 then High else if score \<ge> 30 then Medium else Low)"

text \<open>
  Modelled from the spec: step 3, the intent-based forced overrides, applied to the bucket
  of step 2.  \<^verbatim>\<open>bug_report\<close> is not in the step's list and keeps its bucket, as do the two
  intents of step 5.
\<close>

fun forcedOverride :: "Intent \<Rightarrow> bucket \<Rightarrow> bucket" where
  "forcedOverride CrashReport b = High"
| "forcedOverride LostProgress b = High"
| "forcedOverride BillingIssue b = atLeastBucket Medium b"
| "forcedOverride GameplayIssue b = Low"
| "forcedOverride i b = b"

text \<open>
  Modelled from the spec: step 4, volume escalation, for \<^verbatim>\<open>gameplay_issue\<close> only; the
  reason records the count that fired it.
\<close>

datatype escalation = VolumeEscalation nat

definition volumeEscalation :: "Intent \<Rightarrow> nat \<Rightarrow> bucket \<Rightarrow> bucket \<times> escalation option" where
  "volumeEscalation i count b =
     (if i = GameplayIssue \<and> count \<ge> 5 then (atLeastBucket High b, Some (VolumeEscalation count))
      else if i = GameplayIssue \<and> count \<ge> 3 then (atLeastBucket Medium b, Some (VolumeEscalation count))
      else (b, None))"

text \<open>Modelled from the spec: step 5, the final override.\<close>

definition finalOverride :: "Intent \<Rightarrow> bucket \<Rightarrow> bucket" where
  "finalOverride i b = (if i = IncompleteTicket \<or> i = Unreadable then Low else b)"

text \<open>
  Modelled from the spec: the engine's output (score, bucket, optional escalation reason)
  and the five steps in their order.
\<close>

record severity =
  severity_score :: int
  severity_bucket_of :: bucket
  escalation_reason :: "escalation option"

definition severityEngine :: "Intent \<Rightarrow> int \<Rightarrow> nat \<Rightarrow> severity" where
  "severityEngine i score count =
     (let (b, reason) = volumeEscalation i count (forcedOverride i (bucketize score))
      in \<lparr>severity_score = score, severity_bucket_of = finalOverride i b,
          escalation_reason = reason\<rparr>)"

section \<open>The engine's result as the dashboard receives it\<close>




section \<open>Properties of the feedback patch\<close>

lemma startsWith_Nil: "startsWith t []"
  by (simp add: startsWith_def)

lemma startsWith_Cons: "startsWith (c # t) (d # p) = (c = d \<and> startsWith t p)"
  by (auto simp add: startsWith_def)

lemma countTags_filter_out: "countTags p (filter (\<lambda>t. \<not> startsWith t p) ts) = 0"
  by (induction ts) (simp_all add: countTags_def)

lemma countTags_filter_le: "countTags p (filter Q ts) \<le> countTags p ts"
  by (induction ts) (simp_all add: countTags_def)

lemma lower_critical: "toLowerCase ''critical'' = ''critical''"
  by code_simp

lemma lower_high: "toLowerCase ''high'' = ''high''"
  by code_simp

lemma lower_medium: "toLowerCase ''medium'' = ''medium''"
  by code_simp

lemma lower_low: "toLowerCase ''low'' = ''low''"
  by code_simp

lemma upper_critical: "toUpperCase ''critical'' = ''CRITICAL''"
  by code_simp

lemma selectValue_in_options: "selectValue options sel \<in> set ([] # options)"
  by (cases sel) (simp_all add: selectValue_def)

lemma patchRec_tags_both:
  assumes "conv_id r = convId" and "ci \<noteq> []" and "cs \<noteq> []"
  shows "suggested_tags (patchRec convId ci cs r) =
     Some ((''sev:'' @ cs) # (''intent:'' @ ci) #
       filter (\<lambda>t. \<not> startsWith t ''sev:'')
         (filter (\<lambda>t. \<not> startsWith t ''intent:'') (orEmpty (suggested_tags r))))"
  using assms by (simp add: patchRec_def patchSevTags_def patchIntentTags_def startsWith_Cons)

lemma patchRec_tags_intent:
  assumes "conv_id r = convId" and "ci \<noteq> []"
  shows "suggested_tags (patchRec convId ci [] r) =
     Some ((''intent:'' @ ci) #
       filter (\<lambda>t. \<not> startsWith t ''intent:'') (orEmpty (suggested_tags r)))"
  using assms by (simp add: patchRec_def patchSevTags_def patchIntentTags_def)

lemma patchRec_bucket:
  "severity_bucket (patchRec convId ci cs r) =
     (if conv_id r = convId \<and> cs \<noteq> [] then Some cs else severity_bucket r)"
  by (simp add: patchRec_def patchSevTags_def patchIntentTags_def strOr_def)



text \<open>
  Claim C8.  A tag correction that supplies a corrected intent, and possibly a corrected
  severity, is applied to a record: afterwards the suggested tags hold at most one
  \<^verbatim>\<open>intent:*\<close> entry and at most one \<^verbatim>\<open>sev:*\<close> entry, and the first \<^verbatim>\<open>intent:*\<close> entry
  (the one the dashboard reads) is the corrected intent's.  When no severity is supplied
  the \<^verbatim>\<open>sev:*\<close> entries are those of the record before, which by the data model held at
  most one; when one is supplied nothing is asked of the record before.
\<close>

theorem tag_correction_tags:
  assumes "conv_id r = convId" and "correctIntent \<noteq> []"
    and "correctSeverity = [] \<longrightarrow> countTags ''sev:'' (orEmpty (suggested_tags r)) \<le> 1"
  shows "countTags ''intent:''
           (orEmpty (suggested_tags (patchRec convId correctIntent correctSeverity r))) \<le> 1
       \<and> countTags ''sev:''
           (orEmpty (suggested_tags (patchRec convId correctIntent correctSeverity r))) \<le> 1
       \<and> intentTag (patchRec convId correctIntent correctSeverity r)
           = Some (''intent:'' @ correctIntent)"
proof (cases "correctSeverity = []")
  case True
  have tags: "orEmpty (suggested_tags (patchRec convId correctIntent correctSeverity r)) =
      (''intent:'' @ correctIntent) #
        filter (\<lambda>t. \<not> startsWith t ''intent:'') (orEmpty (suggested_tags r))"
    using assms(1,2) True by (simp add: patchRec_tags_intent orEmpty_def)
  have "countTags ''sev:''
          (filter (\<lambda>t. \<not> startsWith t ''intent:'') (orEmpty (suggested_tags r))) \<le> 1"
    using assms(3) True countTags_filter_le[of "''sev:''" _ "orEmpty (suggested_tags r)"]
    by (meson le_trans)
  then show ?thesis
    unfolding tags intentTag_def
    using countTags_filter_out[of "''intent:''" "orEmpty (suggested_tags r)"]
    by (simp add: countTags_def startsWith_Cons startsWith_Nil)
next
  case False
  let ?rest = "filter (\<lambda>t. \<not> startsWith t ''sev:'')
                 (filter (\<lambda>t. \<not> startsWith t ''intent:'') (orEmpty (suggested_tags r)))"
  have tags: "orEmpty (suggested_tags (patchRec convId correctIntent correctSeverity r)) =
     (''sev:'' @ correctSeverity) # (''intent:'' @ correctIntent) # ?rest"
    using assms(1,2) False by (simp add: patchRec_tags_both orEmpty_def)
  have no_intent: "countTags ''intent:'' ?rest = 0"
    using countTags_filter_le[of "''intent:''" "\<lambda>t. \<not> startsWith t ''sev:''"
            "filter (\<lambda>t. \<not> startsWith t ''intent:'') (orEmpty (suggested_tags r))"]
      countTags_filter_out[of "''intent:''" "orEmpty (suggested_tags r)"]
    by simp
  have no_sev: "countTags ''sev:'' ?rest = 0"
    by (rule countTags_filter_out)
  show ?thesis
    unfolding intentTag_def tags
    using no_intent no_sev
    by (simp add: countTags_def startsWith_Cons startsWith_Nil)
qed

theorem tag_correction_tags_witness:
  "conv_id ticket123 = 123 \<and> ''refund_request'' \<noteq> []
   \<and> countTags ''sev:'' (orEmpty (suggested_tags ticket123)) \<le> 1
   \<and> suggested_tags (patchRec 123 ''refund_request'' [] ticket123)
       = Some [''intent:refund_request'', ''sev:low'', ''how_to'']
   \<and> countTags ''intent:''
        (orEmpty (suggested_tags (patchRec 123 ''refund_request'' [] ticket123))) \<le> 1
   \<and> countTags ''sev:''
        (orEmpty (suggested_tags (patchRec 123 ''refund_request'' [] ticket123))) \<le> 1
   \<and> intentTag (patchRec 123 ''refund_request'' [] ticket123) = Some ''intent:refund_request''
   \<and> suggested_tags (patchRec 123 ''refund_request'' ''high'' ticket123)
       = Some [''sev:high'', ''intent:refund_request'', ''how_to'']
   \<and> intentTag (patchRec 123 ''refund_request'' ''high'' ticket123)
       = Some ''intent:refund_request''"
  using tag_correction_tags[of ticket123 123 "''refund_request''" "[]"]
    tag_correction_tags[of ticket123 123 "''refund_request''" "''high''"]
  by (simp add: ticket123_def countTags_def orEmpty_def startsWith_Cons startsWith_Nil
      patchRec_def patchSevTags_def patchIntentTags_def strOr_def)






text \<open>
  Claim C10.  Whatever is selected in the feedback modal, the severity it submits is one
  of \<^verbatim>\<open>critical\<close>, \<^verbatim>\<open>high\<close>, \<^verbatim>\<open>medium\<close>, \<^verbatim>\<open>low\<close> or the empty string.  The second option
  submits \<^verbatim>\<open>critical\<close>, which is not a bucket of the specification's enumeration; the
  feedback patch stores it as the ticket's bucket, the badge shows it (red,
  \<^verbatim>\<open>CRITICAL\<close>), and the priority list keeps a ticket of bucket \<^verbatim>\<open>critical\<close> exactly when
  it keeps the same ticket with bucket \<^verbatim>\<open>high\<close>, and never one of bucket \<^verbatim>\<open>medium\<close> or
  \<^verbatim>\<open>low\<close>.
\<close>

theorem modal_severity_values:
  "correct_severity (modalSubmit t intentSelected severitySelected n)
     \<in> set ['''', ''critical'', ''high'', ''medium'', ''low'']
   \<and> correct_severity (modalSubmit t intentSelected (Some 1) n) = ''critical''
   \<and> ''critical'' \<notin> set specBuckets
   \<and> severity_bucket
        (patchRec (conv_id t) (correct_intent (modalSubmit t intentSelected (Some 1) n))
           (correct_severity (modalSubmit t intentSelected (Some 1) n)) t)
       = Some ''critical''
   \<and> badgeColor (r\<lparr>severity_bucket := Some ''critical''\<rparr>) = ''bg-red-600''
   \<and> badgeText (r\<lparr>severity_bucket := Some ''critical''\<rparr>) = ''CRITICAL''
   \<and> isPriority D (r\<lparr>severity_bucket := Some ''critical''\<rparr>)
       = (\<not> loading r \<and> conv_id r \<notin> D)
   \<and> isPriority D (r\<lparr>severity_bucket := Some ''high''\<rparr>)
       = (\<not> loading r \<and> conv_id r \<notin> D)
   \<and> \<not> isPriority D (r\<lparr>severity_bucket := Some ''medium''\<rparr>)
   \<and> \<not> isPriority D (r\<lparr>severity_bucket := Some ''low''\<rparr>)"
proof -
  have submitted: "correct_severity (modalSubmit t intentSelected severitySelected n)
      \<in> set ['''', ''critical'', ''high'', ''medium'', ''low'']"
    using selectValue_in_options[of severityOptions severitySelected]
    by (simp add: modalSubmit_def submitFeedbackParams_def severityOptions_def)
  have critical: "correct_severity (modalSubmit t intentSelected (Some 1) n) = ''critical''"
    by (simp add: modalSubmit_def submitFeedbackParams_def severityOptions_def selectValue_def)
  have outside: "''critical'' \<notin> set specBuckets"
    by (simp add: specBuckets_def)
  have stored: "severity_bucket
        (patchRec (conv_id t) (correct_intent (modalSubmit t intentSelected (Some 1) n))
           (correct_severity (modalSubmit t intentSelected (Some 1) n)) t)
       = Some ''critical''"
    unfolding critical by (simp add: patchRec_bucket)
  have colour: "badgeColor (r\<lparr>severity_bucket := Some ''critical''\<rparr>) = ''bg-red-600''"
    by (simp add: badgeColor_def)
  have shown: "badgeText (r\<lparr>severity_bucket := Some ''critical''\<rparr>) = ''CRITICAL''"
    by (simp add: badgeText_def upper_critical)
  have prio_critical: "isPriority D (r\<lparr>severity_bucket := Some ''critical''\<rparr>)
       = (\<not> loading r \<and> conv_id r \<notin> D)"
    by (simp add: isPriority_def lower_critical)
  have prio_high: "isPriority D (r\<lparr>severity_bucket := Some ''high''\<rparr>)
       = (\<not> loading r \<and> conv_id r \<notin> D)"
    by (simp add: isPriority_def lower_high)
  have prio_medium: "\<not> isPriority D (r\<lparr>severity_bucket := Some ''medium''\<rparr>)"
    by (simp add: isPriority_def lower_medium)
  have prio_low: "\<not> isPriority D (r\<lparr>severity_bucket := Some ''low''\<rparr>)"
    by (simp add: isPriority_def lower_low)
  from submitted critical outside stored colour shown prio_critical prio_high
    prio_medium prio_low
  show ?thesis by blast
qed

section \<open>Properties of the feedback store\<close>

lemma rowKey_update:
  "map rowKey (map (\<lambda>r. if rowKey r = k then r\<lparr>feedback_data := p, created_at := t\<rparr> else r) rs)
     = map rowKey rs"
  by (induction rs) (simp_all add: rowKey_def)

lemma rows_submit_present:
  assumes "(ticketId, actionType) \<in> set (map rowKey (ticket_feedback s))"
  shows "ticket_feedback (upsertFeedback s ticketId actionType p now) =
     map (\<lambda>r. if rowKey r = (ticketId, actionType)
               then r\<lparr>feedback_data := p, created_at := now\<rparr> else r) (ticket_feedback s)"
  using assms by (simp add: upsertFeedback_def)

lemma rows_submit_absent:
  assumes "(ticketId, actionType) \<notin> set (map rowKey (ticket_feedback s))"
  shows "ticket_feedback (upsertFeedback s ticketId actionType p now) =
     ticket_feedback s @
       [\<lparr>row_id = next_id s, conversation_id = ticketId, ticket_number = None,
         action_type = actionType, feedback_data = p, created_at = now\<rparr>]"
  using assms by (simp add: upsertFeedback_def)

lemma uniqueKeys_upsertFeedback:
  assumes "uniqueKeys s"
  shows "uniqueKeys (upsertFeedback s ticketId actionType p now)"
proof (cases "(ticketId, actionType) \<in> set (map rowKey (ticket_feedback s))")
  case True
  show ?thesis
    unfolding uniqueKeys_def rows_submit_present[OF True] rowKey_update
    using assms unfolding uniqueKeys_def .
next
  case False
  have "rowKey \<lparr>row_id = next_id s, conversation_id = ticketId, ticket_number = None,
         action_type = actionType, feedback_data = p, created_at = now\<rparr> = (ticketId, actionType)"
    by (simp add: rowKey_def)
  then show ?thesis
    unfolding uniqueKeys_def rows_submit_absent[OF False]
    using assms False unfolding uniqueKeys_def by simp
qed

lemma filter_key_absent:
  "k \<notin> set (map rowKey rs) \<Longrightarrow> filter (\<lambda>r. rowKey r = k) rs = []"
  by (induction rs) auto

lemma data_after_update:
  assumes "distinct (map rowKey rs)" and "k \<in> set (map rowKey rs)"
  shows "map feedback_data (filter (\<lambda>r. rowKey r = k)
           (map (\<lambda>r. if rowKey r = k then r\<lparr>feedback_data := p, created_at := t\<rparr> else r) rs)) = [p]"
  using assms
proof (induction rs)
  case Nil
  then show ?case by simp
next
  case (Cons r rs)
  let ?f = "\<lambda>r. if rowKey r = k then r\<lparr>feedback_data := p, created_at := t\<rparr> else r"
  show ?case
  proof (cases "rowKey r = k")
    case True
    then have "k \<notin> set (map rowKey rs)" using Cons.prems(1) by auto
    then have "k \<notin> set (map rowKey (map ?f rs))"
      unfolding rowKey_update .
    then have "filter (\<lambda>r. rowKey r = k) (map ?f rs) = []"
      by (rule filter_key_absent)
    moreover have "rowKey (r\<lparr>feedback_data := p, created_at := t\<rparr>) = k"
      using True by (simp add: rowKey_def)
    ultimately show ?thesis using True by simp
  next
    case False
    then have "k \<in> set (map rowKey rs)" using Cons.prems(2) by auto
    moreover have "distinct (map rowKey rs)" using Cons.prems(1) by simp
    ultimately have "map feedback_data (filter (\<lambda>r. rowKey r = k) (map ?f rs)) = [p]"
      by (rule Cons.IH[rotated])
    then show ?thesis using False by simp
  qed
qed

lemma recordsFor_upsertFeedback:
  assumes "uniqueKeys s"
  shows "map feedback_data
           (recordsFor (ticketId, actionType) (upsertFeedback s ticketId actionType p now)) = [p]"
proof (cases "(ticketId, actionType) \<in> set (map rowKey (ticket_feedback s))")
  case True
  have "distinct (map rowKey (ticket_feedback s))"
    using assms unfolding uniqueKeys_def .
  then show ?thesis
    unfolding recordsFor_def rows_submit_present[OF True]
    using True by (rule data_after_update)
next
  case False
  have "filter (\<lambda>r. rowKey r = (ticketId, actionType)) (ticket_feedback s) = []"
    using False by (rule filter_key_absent)
  then show ?thesis
    unfolding recordsFor_def rows_submit_absent[OF False]
    by (simp add: rowKey_def)
qed

lemma uniqueKeys_submitAll:
  "uniqueKeys s \<Longrightarrow> uniqueKeys (submitAll s history)"
  by (induction s history rule: submitAll.induct) (simp_all add: uniqueKeys_upsertFeedback)

lemma uniqueKeys_emptyStore: "uniqueKeys emptyStore"
  by (simp add: uniqueKeys_def emptyStore_def)

lemma uniqueKeys_recordsFor:
  "uniqueKeys s \<Longrightarrow> length (recordsFor k s) \<le> 1"
proof -
  have "distinct (map rowKey rs) \<Longrightarrow> length (filter (\<lambda>r. rowKey r = k) rs) \<le> 1" for rs
  proof (induction rs)
    case Nil
    then show ?case by simp
  next
    case (Cons r rs)
    show ?case
    proof (cases "rowKey r = k")
      case True
      then have "k \<notin> set (map rowKey rs)" using Cons.prems by auto
      then have "filter (\<lambda>r. rowKey r = k) rs = []" by (rule filter_key_absent)
      then show ?thesis by simp
    next
      case False
      then show ?thesis using Cons by simp
    qed
  qed
  then show "uniqueKeys s \<Longrightarrow> length (recordsFor k s) \<le> 1"
    unfolding uniqueKeys_def recordsFor_def .
qed

text \<open>
  Claim C3.  In every table reached from the empty one by submissions, at most one record
  is stored for a (ticket identifier, action type) pair; and after two submissions for
  the same pair that is still so, and the one record of the pair carries the payload of
  the second submission.
\<close>

theorem feedback_upsert:
  "length (recordsFor k (submitAll emptyStore history)) \<le> 1
   \<and> length (recordsFor k
        (upsertFeedback
           (upsertFeedback (submitAll emptyStore history) ticketId actionType p1 t1)
           ticketId actionType p2 t2)) \<le> 1
   \<and> map feedback_data
        (recordsFor (ticketId, actionType)
           (upsertFeedback
              (upsertFeedback (submitAll emptyStore history) ticketId actionType p1 t1)
              ticketId actionType p2 t2)) = [p2]"
proof -
  have u: "uniqueKeys (submitAll emptyStore history)"
    by (simp add: uniqueKeys_submitAll uniqueKeys_emptyStore)
  then have u1:
    "uniqueKeys (upsertFeedback (submitAll emptyStore history) ticketId actionType p1 t1)"
    by (rule uniqueKeys_upsertFeedback)
  then have u2:
    "uniqueKeys (upsertFeedback
        (upsertFeedback (submitAll emptyStore history) ticketId actionType p1 t1)
        ticketId actionType p2 t2)"
    by (rule uniqueKeys_upsertFeedback)
  show ?thesis
    using uniqueKeys_recordsFor[OF u] uniqueKeys_recordsFor[OF u2]
      recordsFor_upsertFeedback[OF u1]
    by blast
qed

section \<open>Properties of the severity engine\<close>

text \<open>
  Claim C2.  For the intents \<^verbatim>\<open>crash_report\<close> and \<^verbatim>\<open>lost_progress\<close> the engine's final
  bucket is \<^verbatim>\<open>high\<close>, for every base score and every cluster volume.
\<close>

theorem crash_and_lost_progress_high:
  assumes "i = CrashReport \<or> i = LostProgress"
  shows "severity_bucket_of (severityEngine i score count) = High"
  using assms
  by (auto simp: severityEngine_def volumeEscalation_def finalOverride_def)

theorem crash_and_lost_progress_high_witness:
  "(CrashReport = CrashReport \<or> CrashReport = LostProgress)
   \<and> severity_bucket_of (severityEngine CrashReport 0 0) = High
   \<and> severity_bucket_of (severityEngine LostProgress 12 7) = High"
  using crash_and_lost_progress_high[of CrashReport 0 0]
    crash_and_lost_progress_high[of LostProgress 12 7]
  by simp

end
